theory Spec2Isabelle
  imports Complex_Main
begin

section \<open>Colour objects and the colour library\<close>

text \<open>
  The notebooks build colours with the constructors \<open>sRGBColor\<close>, \<open>LabColor\<close> and
  \<open>HSVColor\<close> of python-colormath and convert between them with \<open>convert_color\<close>.
  Python floats are idealised as real numbers.
\<close>

datatype sRGBColor = sRGBColor (rgb_r: real) (rgb_g: real) (rgb_b: real)

datatype LabColor = LabColor (lab_l: real) (lab_a: real) (lab_b: real)

datatype HSVColor = HSVColor (hsv_h: real) (hsv_s: real) (hsv_v: real)

datatype color = Color_sRGB sRGBColor | Color_Lab LabColor | Color_HSV HSVColor

text \<open>
  python-colormath is a third-party package and not part of the repository. Its three
  conversions used by the notebooks are a parameter of every function below, so each
  theorem holds for whatever the library computes.
\<close>

record colormath =
  lab_to_rgb :: "LabColor \<Rightarrow> sRGBColor"
  rgb_to_lab :: "sRGBColor \<Rightarrow> LabColor"
  hsv_to_rgb :: "HSVColor \<Rightarrow> sRGBColor"

text \<open>\<open>convert_color(color, sRGBColor)\<close>: a colour that already is sRGB comes back as it is.\<close>

fun convert_to_sRGB :: "colormath \<Rightarrow> color \<Rightarrow> sRGBColor" where
  "convert_to_sRGB cm (Color_sRGB c) = c"
| "convert_to_sRGB cm (Color_Lab c) = lab_to_rgb cm c"
| "convert_to_sRGB cm (Color_HSV c) = hsv_to_rgb cm c"

definition get_value_tuple :: "sRGBColor \<Rightarrow> real \<times> real \<times> real" where
  "get_value_tuple c = (rgb_r c, rgb_g c, rgb_b c)"

text \<open>
  Modelled from the spec: \<open>get_upscaled_value_tuple\<close> belongs to python-colormath, which
  is not in the repository. The spec describes the upscaled variant as the same triple
  with components rounded to integers on the 0--255 scale; the rounding is to the nearest
  integer, as the printed tables of the Kindlmann notebook show (0.1796... becomes 46).
\<close>

definition upscale :: "real \<Rightarrow> int" where
  "upscale v = \<lfloor>1 / 2 + v * 255\<rfloor>"

definition get_upscaled_value_tuple :: "sRGBColor \<Rightarrow> int \<times> int \<times> int" where
  "get_upscaled_value_tuple c = (upscale (rgb_r c), upscale (rgb_g c), upscale (rgb_b c))"

section \<open>Kindlmann notebook: gamut tests and the hue sweep\<close>

definition valid_color :: "colormath \<Rightarrow> color \<Rightarrow> bool" where
  "valid_color cm color =
     (case get_upscaled_value_tuple (convert_to_sRGB cm color) of
        (r, g, b) \<Rightarrow> r \<ge> 0 \<and> r \<le> 255 \<and> g \<ge> 0 \<and> g \<le> 255 \<and> b \<ge> 0 \<and> b \<le> 255)"

definition safe_color :: "colormath \<Rightarrow> color \<Rightarrow> bool" where
  "safe_color cm color =
     (let rgb_color = convert_to_sRGB cm color;
          clamp_dist = (5 / 100) *
            (max (rgb_r rgb_color) (max (rgb_g rgb_color) (rgb_b rgb_color))
             - min (rgb_r rgb_color) (min (rgb_g rgb_color) (rgb_b rgb_color)))
      in rgb_r rgb_color \<ge> clamp_dist \<and> rgb_r rgb_color \<le> 1 - clamp_dist \<and>
         rgb_g rgb_color \<ge> clamp_dist \<and> rgb_g rgb_color \<le> 1 - clamp_dist \<and>
         rgb_b rgb_color \<ge> clamp_dist \<and> rgb_b rgb_color \<le> 1 - clamp_dist)"

text \<open>
  The loop \<open>for i in xrange(0, 12)\<close> of \<open>scale_hue\<close>: the first argument counts the
  iterations still to run, the result is the final \<open>low_scale\<close>.
\<close>

fun chroma_search :: "colormath \<Rightarrow> real \<Rightarrow> real \<Rightarrow> real \<Rightarrow> nat \<Rightarrow> real \<Rightarrow> real \<Rightarrow> real" where
  "chroma_search cm l_target a_original b_original 0 low_scale high_scale = low_scale"
| "chroma_search cm l_target a_original b_original (Suc n) low_scale high_scale =
     (let mid_scale = (high_scale - low_scale) / 2 + low_scale in
      if safe_color cm (Color_Lab (LabColor l_target (mid_scale * a_original) (mid_scale * b_original)))
      then chroma_search cm l_target a_original b_original n mid_scale high_scale
      else chroma_search cm l_target a_original b_original n low_scale mid_scale)"

definition scale_hue :: "colormath \<Rightarrow> real \<Rightarrow> real \<Rightarrow> sRGBColor" where
  "scale_hue cm hue scalar =
     (if scalar \<le> 0 then sRGBColor 0 0 0
      else if scalar \<ge> 1 then sRGBColor 1 1 1
      else
        let hsv_original = HSVColor hue 1 1;
            rgb_original = hsv_to_rgb cm hsv_original;
            lab_original = rgb_to_lab cm rgb_original;
            l_target = 100 * scalar;
            a_original = lab_a lab_original;
            b_original = lab_b lab_original;
            low_scale = chroma_search cm l_target a_original b_original 12 0 1
        in lab_to_rgb cm (LabColor l_target (low_scale * a_original) (low_scale * b_original)))"

text \<open>
  Names for the intermediate values of \<open>scale_hue\<close> past its two special cases: the Lab
  colour of the fully saturated hue, the chroma scale the search ends with, and the Lab
  colour handed to the final conversion.
\<close>

definition lab_original :: "colormath \<Rightarrow> real \<Rightarrow> LabColor" where
  "lab_original cm hue = rgb_to_lab cm (hsv_to_rgb cm (HSVColor hue 1 1))"

definition final_scale :: "colormath \<Rightarrow> real \<Rightarrow> real \<Rightarrow> real" where
  "final_scale cm hue scalar =
     chroma_search cm (100 * scalar) (lab_a (lab_original cm hue)) (lab_b (lab_original cm hue)) 12 0 1"

definition scaled_lab :: "colormath \<Rightarrow> real \<Rightarrow> real \<Rightarrow> real \<Rightarrow> LabColor" where
  "scaled_lab cm hue scalar k =
     LabColor (100 * scalar) (k * lab_a (lab_original cm hue)) (k * lab_b (lab_original cm hue))"

definition final_lab :: "colormath \<Rightarrow> real \<Rightarrow> real \<Rightarrow> LabColor" where
  "final_lab cm hue scalar = scaled_lab cm hue scalar (final_scale cm hue scalar)"

text \<open>
  \<open>numpy.linspace(start, stop, num)\<close>: \<open>num\<close> evenly spaced values, both ends included;
  a single value is \<open>start\<close>.
\<close>

definition linspace :: "real \<Rightarrow> real \<Rightarrow> nat \<Rightarrow> real list" where
  "linspace start stop num =
     (if num = 1 then [start]
      else map (\<lambda>i. start + real i * ((stop - start) / real (num - 1))) [0..<num])"

record kindlmann_row =
  t_hue :: real
  t_scalar :: real
  t_sRGBColor :: sRGBColor
  t_RGB :: "int \<times> int \<times> int"
  t_sRGB :: "real \<times> real \<times> real"

definition kindlmann_row_of :: "colormath \<Rightarrow> real \<times> real \<Rightarrow> kindlmann_row" where
  "kindlmann_row_of cm hs =
     \<lparr>t_hue = fst hs, t_scalar = snd hs,
      t_sRGBColor = scale_hue cm (fst hs) (snd hs),
      t_RGB = get_upscaled_value_tuple (scale_hue cm (fst hs) (snd hs)),
      t_sRGB = get_value_tuple (scale_hue cm (fst hs) (snd hs))\<rparr>"

definition build_kindlmann_colors :: "colormath \<Rightarrow> real list \<Rightarrow> kindlmann_row list" where
  "build_kindlmann_colors cm hue_array =
     map (kindlmann_row_of cm) (zip hue_array (linspace 0 1 (length hue_array)))"

section \<open>Viridis notebook: loading the table and the interpolated lookup\<close>

datatype py_error = IndexError | DivisionByZero

text \<open>
  The loop over \<open>raw_color_data['RGBPoints']\<close> in steps of four. Reading past the end of
  the list raises \<open>IndexError\<close>.
\<close>

fun load_RGBPoints :: "real list \<Rightarrow> py_error + (real \<times> sRGBColor) list" where
  "load_RGBPoints [] = Inr []"
| "load_RGBPoints (s # r # g # b # rest) =
     (case load_RGBPoints rest of
        Inl e \<Rightarrow> Inl e
      | Inr rows \<Rightarrow> Inr ((s, sRGBColor r g b) # rows))"
| "load_RGBPoints _ = Inl IndexError"

datatype data_row = Data_row (scalar: real) (rgb_values: sRGBColor) (lab_values: LabColor)

text \<open>The data frame \<open>data\<close> with its added column \<open>lab_values\<close>.\<close>

definition load_data :: "colormath \<Rightarrow> real list \<Rightarrow> py_error + data_row list" where
  "load_data cm pts =
     (case load_RGBPoints pts of
        Inl e \<Rightarrow> Inl e
      | Inr rows \<Rightarrow> Inr (map (\<lambda>(s, c). Data_row s c (rgb_to_lab cm c)) rows))"

text \<open>
  The loop of \<open>color_lookup_sRGBColor\<close> over \<open>range(0, data.index.size-1)\<close>, as a
  recursion over the rows from \<open>index\<close> on. Where the two scalars of the selected
  interval are equal, numpy divides by zero (it yields \<open>nan\<close> or \<open>inf\<close> with a warning);
  the reals have no such value, so the model reports the event as \<open>DivisionByZero\<close>.
\<close>

fun lookup_loop :: "colormath \<Rightarrow> real \<Rightarrow> data_row list \<Rightarrow> py_error + sRGBColor" where
  "lookup_loop cm x (low # high # rest) =
     (let low_scalar = scalar low; high_scalar = scalar high in
      if x > high_scalar then lookup_loop cm x (high # rest)
      else if high_scalar - low_scalar = 0 then Inl DivisionByZero
      else
        let low_lab = lab_values low;
            high_lab = lab_values high;
            interp = (x - low_scalar) / (high_scalar - low_scalar);
            mid_lab = LabColor (interp * (lab_l high_lab - lab_l low_lab) + lab_l low_lab)
                               (interp * (lab_a high_lab - lab_a low_lab) + lab_a low_lab)
                               (interp * (lab_b high_lab - lab_b low_lab) + lab_b low_lab)
        in Inr (lab_to_rgb cm mid_lab))"
| "lookup_loop cm x rows = Inr (sRGBColor 1 1 1)"

definition color_lookup_sRGBColor :: "colormath \<Rightarrow> data_row list \<Rightarrow> real \<Rightarrow> py_error + sRGBColor" where
  "color_lookup_sRGBColor cm data x =
     (if x < 0 then Inr (sRGBColor 0 0 0) else lookup_loop cm x data)"

definition color_lookup :: "colormath \<Rightarrow> data_row list \<Rightarrow> real \<Rightarrow> py_error + real \<times> real \<times> real" where
  "color_lookup cm data x = map_sum id get_value_tuple (color_lookup_sRGBColor cm data x)"

definition color_lookup_upscaled :: "colormath \<Rightarrow> data_row list \<Rightarrow> real \<Rightarrow> py_error + int \<times> int \<times> int" where
  "color_lookup_upscaled cm data x =
     map_sum id get_upscaled_value_tuple (color_lookup_sRGBColor cm data x)"

text \<open>
  The interval the loop of \<open>color_lookup_sRGBColor\<close> stops at (its \<open>continue\<close> test
  alone), and the Lab colour it builds there from the fraction \<open>interp\<close>.
\<close>

fun selected_interval :: "real \<Rightarrow> data_row list \<Rightarrow> (data_row \<times> data_row) option" where
  "selected_interval x (low # high # rest) =
     (if x > scalar high then selected_interval x (high # rest) else Some (low, high))"
| "selected_interval x rows = None"

definition interp_lab :: "real \<Rightarrow> LabColor \<Rightarrow> LabColor \<Rightarrow> LabColor" where
  "interp_lab interp low_lab high_lab =
     LabColor (interp * (lab_l high_lab - lab_l low_lab) + lab_l low_lab)
              (interp * (lab_a high_lab - lab_a low_lab) + lab_a low_lab)
              (interp * (lab_b high_lab - lab_b low_lab) + lab_b low_lab)"

text \<open>
  The tables \<open>control_points\<close>, \<open>control_points_compare\<close> and \<open>colors_long\<close>: the lookup
  applied to \<open>numpy.linspace(0.0, 1.0, num=table_length)\<close>.
\<close>

definition control_points :: "colormath \<Rightarrow> data_row list \<Rightarrow> nat \<Rightarrow> (real \<times> (py_error + int \<times> int \<times> int)) list" where
  "control_points cm data table_length =
     map (\<lambda>x. (x, color_lookup_upscaled cm data x)) (linspace 0 1 table_length)"

text \<open>Every other element of a list, starting with the first (the indices \<open>index*2\<close>).\<close>

fun every_other :: "'a list \<Rightarrow> 'a list" where
  "every_other (x # y # rest) = x # every_other rest"
| "every_other rest = rest"

section \<open>A linear stand-in for the colour library\<close>

text \<open>
  An instance of the library parameter on which the functions can be evaluated: an
  opponent-colour encoding (lightness from green, red against green, green against blue)
  with an exact round trip, black at \<open>L = 0\<close> and white at \<open>L = 100\<close>, and the usual
  sextant formula for HSV.
\<close>

definition linear_lab_to_rgb :: "LabColor \<Rightarrow> sRGBColor" where
  "linear_lab_to_rgb c = sRGBColor ((lab_l c + lab_a c) / 100) (lab_l c / 100) ((lab_l c - lab_b c) / 100)"

definition linear_rgb_to_lab :: "sRGBColor \<Rightarrow> LabColor" where
  "linear_rgb_to_lab c = LabColor (100 * rgb_g c) (100 * (rgb_r c - rgb_g c)) (100 * (rgb_g c - rgb_b c))"

definition sextant_hsv_to_rgb :: "HSVColor \<Rightarrow> sRGBColor" where
  "sextant_hsv_to_rgb c =
     (let h_i = \<lfloor>hsv_h c / 60\<rfloor> mod 6;
          f = hsv_h c / 60 - of_int \<lfloor>hsv_h c / 60\<rfloor>;
          v = hsv_v c;
          p = v * (1 - hsv_s c);
          q = v * (1 - f * hsv_s c);
          t = v * (1 - (1 - f) * hsv_s c)
      in if h_i = 0 then sRGBColor v t p
         else if h_i = 1 then sRGBColor q v p
         else if h_i = 2 then sRGBColor p v t
         else if h_i = 3 then sRGBColor p q v
         else if h_i = 4 then sRGBColor t p v
         else sRGBColor v p q)"

definition linear_cm :: colormath where
  "linear_cm = \<lparr>lab_to_rgb = linear_lab_to_rgb, rgb_to_lab = linear_rgb_to_lab,
                hsv_to_rgb = sextant_hsv_to_rgb\<rparr>"

text \<open>
  A second instance, miscalibrated on purpose: every channel of its Lab-to-RGB conversion
  lies one above the linear one, so that no Lab colour of lightness above 0 is in gamut.
\<close>

definition overshoot_lab_to_rgb :: "LabColor \<Rightarrow> sRGBColor" where
  "overshoot_lab_to_rgb c =
     sRGBColor ((lab_l c + lab_a c) / 100 + 1) (lab_l c / 100 + 1) ((lab_l c - lab_b c) / 100 + 1)"

definition overshoot_cm :: colormath where
  "overshoot_cm = \<lparr>lab_to_rgb = overshoot_lab_to_rgb, rgb_to_lab = linear_rgb_to_lab,
                   hsv_to_rgb = sextant_hsv_to_rgb\<rparr>"

text \<open>
  A two-row input table: the first and the last colour of the viridis map at the scalars
  0 and 1, with the Lab column computed by the linear instance.
\<close>

definition viridis_ends :: "data_row list" where
  "viridis_ends =
     [Data_row 0 (sRGBColor (267004 / 1000000) (4874 / 1000000) (329415 / 1000000))
        (linear_rgb_to_lab (sRGBColor (267004 / 1000000) (4874 / 1000000) (329415 / 1000000))),
      Data_row 1 (sRGBColor (993248 / 1000000) (906157 / 1000000) (143936 / 1000000))
        (linear_rgb_to_lab (sRGBColor (993248 / 1000000) (906157 / 1000000) (143936 / 1000000)))]"

text \<open>
  Two more input tables over the same colours: one of three rows at the scalars 0, 1/2
  and 1 (the middle row is the colour in the middle of the viridis map), and one of two
  rows at the negative scalars -2 and -1.
\<close>

definition viridis_three :: "data_row list" where
  "viridis_three =
     [Data_row 0 (sRGBColor (267004 / 1000000) (4874 / 1000000) (329415 / 1000000))
        (linear_rgb_to_lab (sRGBColor (267004 / 1000000) (4874 / 1000000) (329415 / 1000000))),
      Data_row (1 / 2) (sRGBColor (127568 / 1000000) (566949 / 1000000) (550556 / 1000000))
        (linear_rgb_to_lab (sRGBColor (127568 / 1000000) (566949 / 1000000) (550556 / 1000000))),
      Data_row 1 (sRGBColor (993248 / 1000000) (906157 / 1000000) (143936 / 1000000))
        (linear_rgb_to_lab (sRGBColor (993248 / 1000000) (906157 / 1000000) (143936 / 1000000)))]"

definition negative_ends :: "data_row list" where
  "negative_ends =
     [Data_row (- 2) (sRGBColor (267004 / 1000000) (4874 / 1000000) (329415 / 1000000))
        (linear_rgb_to_lab (sRGBColor (267004 / 1000000) (4874 / 1000000) (329415 / 1000000))),
      Data_row (- 1) (sRGBColor (993248 / 1000000) (906157 / 1000000) (143936 / 1000000))
        (linear_rgb_to_lab (sRGBColor (993248 / 1000000) (906157 / 1000000) (143936 / 1000000)))]"

section \<open>Instances of the library parameter\<close>

lemma linear_cm_simps:
  "lab_to_rgb linear_cm = linear_lab_to_rgb" "rgb_to_lab linear_cm = linear_rgb_to_lab"
  "hsv_to_rgb linear_cm = sextant_hsv_to_rgb"
  by (simp_all add: linear_cm_def)

lemma lab_original_linear_300: "lab_original linear_cm 300 = LabColor 0 100 (- 100)"
  by (simp add: lab_original_def linear_cm_simps linear_rgb_to_lab_def sextant_hsv_to_rgb_def Let_def)

lemma viridis_ends_shape:
  "sorted_wrt (<) (map scalar viridis_ends)" "2 \<le> length viridis_ends"
  "scalar (hd viridis_ends) = 0" "scalar (last viridis_ends) = 1"
  by (simp_all add: viridis_ends_def)

section \<open>The in-gamut test\<close>

lemma upscale_in_byte_range:
  "(0 \<le> upscale v \<and> upscale v \<le> 255) = (- (1 / 510) \<le> v \<and> v < 511 / 510)"
proof -
  have "(0 \<le> upscale v) = (- (1 / 510) \<le> v)"
    unfolding upscale_def by (simp add: le_floor_iff) argo
  moreover have "(upscale v \<le> 255) = (v < 511 / 510)"
  proof -
    have "(upscale v \<le> 255) = (upscale v < 256)" by auto
    also have "\<dots> = (1 / 2 + v * 255 < 256)"
      unfolding upscale_def by (simp add: floor_less_iff)
    also have "\<dots> = (v < 511 / 510)" by argo
    finally show ?thesis .
  qed
  ultimately show ?thesis by simp
qed

text \<open>
  C5 (as amended). \<open>valid_color\<close> tests the upscaled channels: it returns true exactly when
  every channel of the colour, converted to sRGB and rounded to the 0--255 scale, lies in
  0..255, that is when every channel lies in the interval from \<open>-1/510\<close> (included) to
  \<open>1 + 1/510\<close> (excluded). Channels slightly outside \<open>[0,1]\<close> are accepted.
\<close>

theorem valid_color_upscaled_range:
  "valid_color cm color =
     ((- (1 / 510) \<le> rgb_r (convert_to_sRGB cm color) \<and> rgb_r (convert_to_sRGB cm color) < 511 / 510) \<and>
      (- (1 / 510) \<le> rgb_g (convert_to_sRGB cm color) \<and> rgb_g (convert_to_sRGB cm color) < 511 / 510) \<and>
      (- (1 / 510) \<le> rgb_b (convert_to_sRGB cm color) \<and> rgb_b (convert_to_sRGB cm color) < 511 / 510))"
proof -
  have "valid_color cm color =
     ((0 \<le> upscale (rgb_r (convert_to_sRGB cm color)) \<and> upscale (rgb_r (convert_to_sRGB cm color)) \<le> 255) \<and>
      (0 \<le> upscale (rgb_g (convert_to_sRGB cm color)) \<and> upscale (rgb_g (convert_to_sRGB cm color)) \<le> 255) \<and>
      (0 \<le> upscale (rgb_b (convert_to_sRGB cm color)) \<and> upscale (rgb_b (convert_to_sRGB cm color)) \<le> 255))"
    by (simp add: valid_color_def get_upscaled_value_tuple_def)
  then show ?thesis
    by (simp only: upscale_in_byte_range)
qed

text \<open>
  C5 as stated fails: the colour \<open>sRGBColor(1.001, 0.5, 0.5)\<close> has a red channel above 1,
  yet its upscaled triple is \<open>(255, 128, 128)\<close> and \<open>valid_color\<close> accepts it.
\<close>

theorem valid_color_unit_interval_counterexample:
  "valid_color linear_cm (Color_sRGB (sRGBColor (1001 / 1000) (1 / 2) (1 / 2))) \<and>
   \<not> rgb_r (convert_to_sRGB linear_cm (Color_sRGB (sRGBColor (1001 / 1000) (1 / 2) (1 / 2)))) \<le> 1"
  by (simp add: valid_color_def get_upscaled_value_tuple_def upscale_def)

section \<open>The chroma binary search\<close>

lemma chroma_search_dyadic:
  "low = real m / 2 ^ i \<Longrightarrow> high = real (Suc m) / 2 ^ i \<Longrightarrow>
   \<exists>m'. chroma_search cm l a b n low high = real m' / 2 ^ (i + n) \<and>
        m * 2 ^ n \<le> m' \<and> m' < Suc m * 2 ^ n"
proof (induction n arbitrary: low high m i)
  case 0
  then show ?case by auto
next
  case (Suc n)
  let ?mid = "(high - low) / 2 + low"
  have mid: "?mid = real (Suc (2 * m)) / 2 ^ Suc i"
    using Suc.prems by (simp add: field_simps)
  have lo: "low = real (2 * m) / 2 ^ Suc i"
    using Suc.prems by simp
  have hi: "high = real (Suc (Suc (2 * m))) / 2 ^ Suc i"
    using Suc.prems by (simp add: field_simps)
  show ?case
  proof (cases "safe_color cm (Color_Lab (LabColor l (?mid * a) (?mid * b)))")
    case True
    from Suc.IH [OF mid] hi
    obtain m' where m': "chroma_search cm l a b n ?mid high = real m' / 2 ^ (Suc i + n)"
      "Suc (2 * m) * 2 ^ n \<le> m'" "m' < Suc (Suc (2 * m)) * 2 ^ n"
      by auto
    have "chroma_search cm l a b (Suc n) low high = real m' / 2 ^ (i + Suc n)"
      using True m'(1) by (simp add: Let_def)
    moreover have "m * 2 ^ Suc n \<le> m'" using m'(2) by simp
    moreover have "m' < Suc m * 2 ^ Suc n" using m'(3) by simp
    ultimately show ?thesis by blast
  next
    case False
    from Suc.IH [OF lo] mid
    obtain m' where m': "chroma_search cm l a b n low ?mid = real m' / 2 ^ (Suc i + n)"
      "(2 * m) * 2 ^ n \<le> m'" "m' < Suc (2 * m) * 2 ^ n"
      by auto
    have "chroma_search cm l a b (Suc n) low high = real m' / 2 ^ (i + Suc n)"
      using False m'(1) by (simp add: Let_def)
    moreover have "m * 2 ^ Suc n \<le> m'" using m'(2) by simp
    moreover have "m' < Suc m * 2 ^ Suc n" using m'(3) by simp
    ultimately show ?thesis by blast
  qed
qed

lemma chroma_search_safe:
  "chroma_search cm l a b n low high = low \<or>
   safe_color cm (Color_Lab (LabColor l (chroma_search cm l a b n low high * a)
                                        (chroma_search cm l a b n low high * b)))"
proof (induction n arbitrary: low high)
  case 0
  then show ?case by simp
next
  case (Suc n)
  let ?mid = "(high - low) / 2 + low"
  show ?case
  proof (cases "safe_color cm (Color_Lab (LabColor l (?mid * a) (?mid * b)))")
    case True
    with Suc.IH [of ?mid high] show ?thesis
      by (auto simp: Let_def)
  next
    case False
    with Suc.IH [of low ?mid] show ?thesis
      by (auto simp: Let_def)
  qed
qed

lemma scale_hue_interior:
  "0 < s \<Longrightarrow> s < 1 \<Longrightarrow> scale_hue cm hue s = lab_to_rgb cm (final_lab cm hue s)"
  by (simp add: scale_hue_def final_lab_def scaled_lab_def final_scale_def lab_original_def Let_def)

lemma final_scale_dyadic:
  "\<exists>m. m \<le> 4095 \<and> final_scale cm hue s = real m / 4096"
proof -
  from chroma_search_dyadic [of 0 0 0 1 cm "100 * s" "lab_a (lab_original cm hue)"
      "lab_b (lab_original cm hue)" 12]
  obtain m' where "final_scale cm hue s = real m' / 2 ^ 12" "m' < 2 ^ 12"
    by (auto simp: final_scale_def)
  then show ?thesis by (intro exI [of _ m']) simp
qed

lemma final_scale_linear_300_half: "final_scale linear_cm 300 (1 / 2) = 975 / 2048"
  by (simp add: final_scale_def lab_original_def linear_cm_def linear_rgb_to_lab_def
      sextant_hsv_to_rgb_def linear_lab_to_rgb_def safe_color_def Let_def eval_nat_numeral)

text \<open>
  C9. For a scalar strictly between 0 and 1 the chroma scale that the twelve iterations
  end with is \<open>m / 4096\<close> for a natural number \<open>m \<le> 4095\<close>, so it lies in
  \<open>[0, 1 - 2\<^sup>-\<^sup>1\<^sup>2]\<close> and is never 1; when it is not zero, the Lab colour built from it was a
  midpoint that passed \<open>safe_color\<close>; and \<open>scale_hue\<close> returns the conversion of that colour.
\<close>

theorem chroma_scale_dyadic_and_safe:
  assumes "0 < s" and "s < 1"
  shows "(\<exists>m::nat. m \<le> 4095 \<and> final_scale cm hue s = real m / 4096) \<and>
         0 \<le> final_scale cm hue s \<and> final_scale cm hue s \<le> 1 - 1 / 2 ^ 12 \<and>
         final_scale cm hue s \<noteq> 1 \<and>
         (final_scale cm hue s \<noteq> 0 \<longrightarrow>
            safe_color cm (Color_Lab (scaled_lab cm hue s (final_scale cm hue s)))) \<and>
         scale_hue cm hue s = lab_to_rgb cm (scaled_lab cm hue s (final_scale cm hue s))"
proof -
  obtain m where m: "m \<le> 4095" "final_scale cm hue s = real m / 4096"
    using final_scale_dyadic by blast
  have range: "0 \<le> final_scale cm hue s" "final_scale cm hue s \<le> 1 - 1 / 2 ^ 12"
    using m by simp_all
  have safe: "final_scale cm hue s \<noteq> 0 \<longrightarrow>
      safe_color cm (Color_Lab (scaled_lab cm hue s (final_scale cm hue s)))"
    using chroma_search_safe [of cm "100 * s" "lab_a (lab_original cm hue)"
        "lab_b (lab_original cm hue)" 12 0 1]
    by (auto simp: final_scale_def scaled_lab_def)
  have conv: "scale_hue cm hue s = lab_to_rgb cm (scaled_lab cm hue s (final_scale cm hue s))"
    using scale_hue_interior [OF assms] by (simp add: final_lab_def)
  from m range safe conv show ?thesis by auto
qed

theorem chroma_scale_dyadic_and_safe_witness:
  "(0::real) < 1 / 2 \<and> (1 / 2 :: real) < 1 \<and>
   final_scale linear_cm 300 (1 / 2) = 1950 / 4096 \<and>
   safe_color linear_cm (Color_Lab (scaled_lab linear_cm 300 (1 / 2) (final_scale linear_cm 300 (1 / 2)))) \<and>
   scale_hue linear_cm 300 (1 / 2) =
     lab_to_rgb linear_cm (scaled_lab linear_cm 300 (1 / 2) (final_scale linear_cm 300 (1 / 2)))"
  using chroma_scale_dyadic_and_safe [of "1 / 2" linear_cm 300]
  by (simp add: final_scale_linear_300_half)

section \<open>The interpolated lookup\<close>

lemma lookup_loop_returns:
  "sorted_wrt (<) (map scalar data) \<Longrightarrow> \<exists>c. lookup_loop cm x data = Inr c"
  by (induction cm x data rule: lookup_loop.induct) (auto simp: Let_def)

lemma selected_interval_increasing:
  "sorted_wrt (<) (map scalar data) \<Longrightarrow> selected_interval x data = Some (low, high) \<Longrightarrow>
   scalar low < scalar high"
  by (induction x data rule: selected_interval.induct) (auto split: if_splits)

text \<open>The lookup computes its fraction exactly on the interval the scan stops at.\<close>

lemma lookup_loop_selected:
  "lookup_loop cm x data =
     (case selected_interval x data of
        None \<Rightarrow> Inr (sRGBColor 1 1 1)
      | Some (low, high) \<Rightarrow>
          if scalar high - scalar low = 0 then Inl DivisionByZero
          else Inr (lab_to_rgb cm
            (interp_lab ((x - scalar low) / (scalar high - scalar low)) (lab_values low) (lab_values high))))"
  by (induction cm x data rule: lookup_loop.induct) (auto simp: Let_def interp_lab_def)

lemma lookup_loop_beyond:
  "\<forall>r \<in> set (tl data). scalar r < x \<Longrightarrow> lookup_loop cm x data = Inr (sRGBColor 1 1 1)"
  by (induction cm x data rule: lookup_loop.induct) (auto simp: Let_def)

lemma sorted_scalar_le_last:
  "sorted_wrt (<) (map scalar data) \<Longrightarrow> r \<in> set data \<Longrightarrow> scalar r \<le> scalar (last data)"
  by (induction data) (auto simp: less_imp_le)

lemma lookup_loop_select:
  "sorted_wrt (<) (map scalar data) \<Longrightarrow> 2 \<le> length data \<Longrightarrow> x \<le> scalar (last data) \<Longrightarrow>
   \<exists>i. Suc i < length data \<and> x \<le> scalar (data ! Suc i) \<and> (\<forall>j<i. scalar (data ! Suc j) < x) \<and>
       lookup_loop cm x data = Inr (lab_to_rgb cm
         (interp_lab ((x - scalar (data ! i)) / (scalar (data ! Suc i) - scalar (data ! i)))
            (lab_values (data ! i)) (lab_values (data ! Suc i))))"
proof (induction cm x data rule: lookup_loop.induct)
  case (1 cm x low high rest)
  show ?case
  proof (cases "x > scalar high")
    case True
    with "1.prems" have ne: "rest \<noteq> []" by auto
    then have len: "2 \<le> length (high # rest)" by (cases rest) auto
    have srt: "sorted_wrt (<) (map scalar (high # rest))" using "1.prems" by simp
    have lst: "x \<le> scalar (last (high # rest))" using "1.prems" by simp
    from "1.IH" [OF refl refl True srt len lst]
    obtain i where i: "Suc i < length (high # rest)" "x \<le> scalar ((high # rest) ! Suc i)"
      "\<forall>j<i. scalar ((high # rest) ! Suc j) < x"
      "lookup_loop cm x (high # rest) = Inr (lab_to_rgb cm
         (interp_lab ((x - scalar ((high # rest) ! i)) /
                      (scalar ((high # rest) ! Suc i) - scalar ((high # rest) ! i)))
            (lab_values ((high # rest) ! i)) (lab_values ((high # rest) ! Suc i))))"
      by blast
    have skip: "\<forall>j<Suc i. scalar ((low # high # rest) ! Suc j) < x"
    proof (intro allI impI)
      fix j assume "j < Suc i"
      then show "scalar ((low # high # rest) ! Suc j) < x"
        using True i(3) by (cases j) auto
    qed
    show ?thesis
      apply (rule exI [of _ "Suc i"])
      using i(1,2,4) skip True by (simp add: Let_def)
  next
    case False
    have "scalar low < scalar high" using "1.prems" by simp
    with False show ?thesis
      by (intro exI [of _ 0]) (simp add: Let_def interp_lab_def)
  qed
qed simp_all

lemma lookup_loop_at_last:
  "sorted_wrt (<) (map scalar data) \<Longrightarrow> 2 \<le> length data \<Longrightarrow>
   lookup_loop cm (scalar (last data)) data = Inr (lab_to_rgb cm (lab_values (last data)))"
proof (induction data rule: induct_list012)
  case 1
  then show ?case by simp
next
  case (2 x)
  then show ?case by simp
next
  case (3 low high rest)
  show ?case
  proof (cases rest)
    case Nil
    have "scalar low < scalar high" using "3.prems" by simp
    with Nil show ?thesis by (simp add: Let_def)
  next
    case (Cons r rs)
    have "scalar high < scalar (last (high # rest))"
      using "3.prems" Cons sorted_scalar_le_last [of "r # rs" "last (r # rs)"] by auto
    moreover have "lookup_loop cm (scalar (last (high # rest))) (high # rest) =
        Inr (lab_to_rgb cm (lab_values (last (high # rest))))"
      using "3.IH"(2) "3.prems" Cons by simp
    ultimately show ?thesis by (simp add: Let_def)
  qed
qed

lemma lookup_loop_at_first:
  assumes "sorted_wrt (<) (map scalar data)" and "2 \<le> length data"
  shows "lookup_loop cm (scalar (hd data)) data = Inr (lab_to_rgb cm (lab_values (hd data)))"
proof -
  from assms(2) obtain low high rest where d: "data = low # high # rest"
    by (cases data; cases "tl data") auto
  with assms(1) have "scalar low < scalar high" by simp
  with d show ?thesis by (simp add: Let_def)
qed

text \<open>
  C2 (as amended). In the hue sweep, \<open>scale_hue\<close> returns pure black at scalar 0 and pure
  white at scalar 1 for every hue. In the interpolated mode, for a table of at least two
  rows with strictly increasing scalars that starts at scalar 0 and ends at scalar 1, the
  lookup at 0 returns the RGB conversion of the first row's Lab colour and the lookup at 1
  returns the RGB conversion of the last row's Lab colour.
\<close>

theorem ramp_boundary_values:
  assumes "sorted_wrt (<) (map scalar data)" and "2 \<le> length data"
    and "scalar (hd data) = 0" and "scalar (last data) = 1"
  shows "scale_hue cm hue 0 = sRGBColor 0 0 0 \<and> scale_hue cm hue 1 = sRGBColor 1 1 1 \<and>
         color_lookup_sRGBColor cm data 0 = Inr (lab_to_rgb cm (lab_values (hd data))) \<and>
         color_lookup_sRGBColor cm data 1 = Inr (lab_to_rgb cm (lab_values (last data)))"
proof -
  have "scale_hue cm hue 0 = sRGBColor 0 0 0" "scale_hue cm hue 1 = sRGBColor 1 1 1"
    by (simp_all add: scale_hue_def)
  moreover have "color_lookup_sRGBColor cm data 0 = Inr (lab_to_rgb cm (lab_values (hd data)))"
    using lookup_loop_at_first [OF assms(1,2), of cm] assms(3)
    by (simp add: color_lookup_sRGBColor_def)
  moreover have "color_lookup_sRGBColor cm data 1 = Inr (lab_to_rgb cm (lab_values (last data)))"
    using lookup_loop_at_last [OF assms(1,2), of cm] assms(4)
    by (simp add: color_lookup_sRGBColor_def)
  ultimately show ?thesis by simp
qed

theorem ramp_boundary_values_witness:
  "sorted_wrt (<) (map scalar viridis_ends) \<and> 2 \<le> length viridis_ends \<and>
   scalar (hd viridis_ends) = 0 \<and> scalar (last viridis_ends) = 1 \<and>
   scale_hue linear_cm 300 0 = sRGBColor 0 0 0 \<and> scale_hue linear_cm 300 1 = sRGBColor 1 1 1 \<and>
   color_lookup_sRGBColor linear_cm viridis_ends 0 =
     Inr (lab_to_rgb linear_cm (lab_values (hd viridis_ends))) \<and>
   color_lookup_sRGBColor linear_cm viridis_ends 1 =
     Inr (lab_to_rgb linear_cm (lab_values (last viridis_ends)))"
  using ramp_boundary_values [OF viridis_ends_shape, of linear_cm 300] viridis_ends_shape
  by blast

text \<open>
  C2 as stated fails in the interpolated mode: on the two-row table of the viridis end
  colours the lookup at 0 returns the first colour and the lookup at 1 the last colour,
  neither black nor white. (The notebook's own plot labels its ends
  \<open>0.00, (72, 0, 84)\<close> and \<open>1.00, (243, 233, 28)\<close>.)
\<close>

theorem lookup_boundary_counterexample:
  "color_lookup_sRGBColor linear_cm viridis_ends 0 =
     Inr (sRGBColor (267004 / 1000000) (4874 / 1000000) (329415 / 1000000)) \<and>
   color_lookup_sRGBColor linear_cm viridis_ends 0 \<noteq> Inr (sRGBColor 0 0 0) \<and>
   color_lookup_sRGBColor linear_cm viridis_ends 1 =
     Inr (sRGBColor (993248 / 1000000) (906157 / 1000000) (143936 / 1000000)) \<and>
   color_lookup_sRGBColor linear_cm viridis_ends 1 \<noteq> Inr (sRGBColor 1 1 1)"
  by (simp add: color_lookup_sRGBColor_def viridis_ends_def linear_cm_def linear_rgb_to_lab_def
      linear_lab_to_rgb_def Let_def)

text \<open>
  C6 (as amended). For a table of at least two rows whose scalars are non-negative and
  strictly increasing: a query \<open>x\<close> between the first and the last scalar is answered from the
  first interval \<open>i\<close> whose upper scalar is at least \<open>x\<close> (every earlier upper scalar is
  below \<open>x\<close>, and the lower scalar of interval \<open>i\<close> is at most \<open>x\<close>), with the fraction
  \<open>(x - low) / (high - low)\<close>, by the RGB conversion of the Lab colour interpolated
  linearly between the two rows; a query below 0 gives black; a query above the last
  scalar gives white.
\<close>

theorem color_lookup_interpolates:
  assumes "sorted_wrt (<) (map scalar data)" and "2 \<le> length data" and "0 \<le> scalar (hd data)"
  shows "(scalar (hd data) \<le> x \<and> x \<le> scalar (last data) \<longrightarrow>
            (\<exists>i. Suc i < length data \<and> scalar (data ! i) \<le> x \<and> x \<le> scalar (data ! Suc i) \<and>
                 (\<forall>j<i. scalar (data ! Suc j) < x) \<and>
                 color_lookup_sRGBColor cm data x = Inr (lab_to_rgb cm
                   (interp_lab ((x - scalar (data ! i)) / (scalar (data ! Suc i) - scalar (data ! i)))
                      (lab_values (data ! i)) (lab_values (data ! Suc i)))))) \<and>
         (x < 0 \<longrightarrow> color_lookup_sRGBColor cm data x = Inr (sRGBColor 0 0 0)) \<and>
         (scalar (last data) < x \<longrightarrow> color_lookup_sRGBColor cm data x = Inr (sRGBColor 1 1 1))"
proof (intro conjI impI)
  assume rng: "scalar (hd data) \<le> x \<and> x \<le> scalar (last data)"
  with assms(3) have x0: "\<not> x < 0" by simp
  from assms(2) have ne: "data \<noteq> []" by auto
  from lookup_loop_select [OF assms(1,2), of x cm] rng
  obtain i where i: "Suc i < length data" "x \<le> scalar (data ! Suc i)"
    "\<forall>j<i. scalar (data ! Suc j) < x"
    "lookup_loop cm x data = Inr (lab_to_rgb cm
         (interp_lab ((x - scalar (data ! i)) / (scalar (data ! Suc i) - scalar (data ! i)))
            (lab_values (data ! i)) (lab_values (data ! Suc i))))"
    by blast
  have low: "scalar (data ! i) \<le> x"
  proof (cases i)
    case 0
    with rng ne show ?thesis by (simp add: hd_conv_nth)
  next
    case (Suc k)
    with i(3) have "scalar (data ! Suc k) < x" by simp
    with Suc show ?thesis by simp
  qed
  from i low x0 show "\<exists>i. Suc i < length data \<and> scalar (data ! i) \<le> x \<and> x \<le> scalar (data ! Suc i) \<and>
       (\<forall>j<i. scalar (data ! Suc j) < x) \<and>
       color_lookup_sRGBColor cm data x = Inr (lab_to_rgb cm
         (interp_lab ((x - scalar (data ! i)) / (scalar (data ! Suc i) - scalar (data ! i)))
            (lab_values (data ! i)) (lab_values (data ! Suc i))))"
    by (auto simp: color_lookup_sRGBColor_def)
next
  assume "x < 0"
  then show "color_lookup_sRGBColor cm data x = Inr (sRGBColor 0 0 0)"
    by (simp add: color_lookup_sRGBColor_def)
next
  assume beyond: "scalar (last data) < x"
  from assms(2) have ne: "data \<noteq> []" by auto
  then have "scalar (hd data) \<le> scalar (last data)"
    using sorted_scalar_le_last [OF assms(1), of "hd data"] by simp
  with assms(3) beyond have x0: "\<not> x < 0" by simp
  have "\<forall>r \<in> set (tl data). scalar r < x"
  proof
    fix r assume "r \<in> set (tl data)"
    then have "r \<in> set data" using ne by (auto dest: list.set_sel(2))
    from sorted_scalar_le_last [OF assms(1) this] beyond show "scalar r < x" by simp
  qed
  from lookup_loop_beyond [OF this] x0
  show "color_lookup_sRGBColor cm data x = Inr (sRGBColor 1 1 1)"
    by (simp add: color_lookup_sRGBColor_def)
qed

theorem color_lookup_interpolates_witness:
  "sorted_wrt (<) (map scalar viridis_three) \<and> 2 \<le> length viridis_three \<and>
   0 \<le> scalar (hd viridis_three) \<and>
   color_lookup_sRGBColor linear_cm viridis_three (3 / 4) =
     Inr (lab_to_rgb linear_cm
       (interp_lab (1 / 2) (lab_values (viridis_three ! 1)) (lab_values (viridis_three ! 2)))) \<and>
   color_lookup_sRGBColor linear_cm viridis_three (1 / 2) =
     Inr (lab_to_rgb linear_cm
       (interp_lab 1 (lab_values (viridis_three ! 0)) (lab_values (viridis_three ! 1)))) \<and>
   color_lookup_sRGBColor linear_cm viridis_three (- 1) = Inr (sRGBColor 0 0 0) \<and>
   color_lookup_sRGBColor linear_cm viridis_three 2 = Inr (sRGBColor 1 1 1)"
proof -
  have shape: "sorted_wrt (<) (map scalar viridis_three)" "2 \<le> length viridis_three"
    "0 \<le> scalar (hd viridis_three)"
    by (simp_all add: viridis_three_def)
  have len: "length viridis_three = 3" by (simp add: viridis_three_def)
  have sc: "scalar (viridis_three ! 0) = 0" "scalar (viridis_three ! Suc 0) = 1 / 2"
    "scalar (viridis_three ! Suc (Suc 0)) = 1"
    by (simp_all add: viridis_three_def)
  have last: "scalar (last viridis_three) = 1" by (simp add: viridis_three_def)
  have in1: "scalar (hd viridis_three) \<le> 3 / 4 \<and> 3 / 4 \<le> scalar (last viridis_three)"
    by (simp add: viridis_three_def)
  from color_lookup_interpolates [OF shape, of "3 / 4" linear_cm] in1
  obtain i where i: "Suc i < length viridis_three" "3 / 4 \<le> scalar (viridis_three ! Suc i)"
    "color_lookup_sRGBColor linear_cm viridis_three (3 / 4) = Inr (lab_to_rgb linear_cm
       (interp_lab ((3 / 4 - scalar (viridis_three ! i)) /
                    (scalar (viridis_three ! Suc i) - scalar (viridis_three ! i)))
          (lab_values (viridis_three ! i)) (lab_values (viridis_three ! Suc i))))"
    by blast
  have "i = Suc 0"
  proof (rule ccontr)
    assume "i \<noteq> Suc 0"
    with i(1) len have "i = 0" by simp
    with i(2) sc(2) show False by simp
  qed
  with i(3) sc have upper: "color_lookup_sRGBColor linear_cm viridis_three (3 / 4) =
     Inr (lab_to_rgb linear_cm
       (interp_lab (1 / 2) (lab_values (viridis_three ! 1)) (lab_values (viridis_three ! 2))))"
    by (simp add: numeral_2_eq_2)
  have in2: "scalar (hd viridis_three) \<le> 1 / 2 \<and> 1 / 2 \<le> scalar (last viridis_three)"
    by (simp add: viridis_three_def)
  from color_lookup_interpolates [OF shape, of "1 / 2" linear_cm] in2
  obtain k where k: "Suc k < length viridis_three"
    "\<forall>j<k. scalar (viridis_three ! Suc j) < 1 / 2"
    "color_lookup_sRGBColor linear_cm viridis_three (1 / 2) = Inr (lab_to_rgb linear_cm
       (interp_lab ((1 / 2 - scalar (viridis_three ! k)) /
                    (scalar (viridis_three ! Suc k) - scalar (viridis_three ! k)))
          (lab_values (viridis_three ! k)) (lab_values (viridis_three ! Suc k))))"
    by blast
  have "k = 0"
  proof (rule ccontr)
    assume "k \<noteq> 0"
    with k(2) have "scalar (viridis_three ! Suc 0) < 1 / 2" by simp
    with sc(2) show False by simp
  qed
  with k(3) sc have tie: "color_lookup_sRGBColor linear_cm viridis_three (1 / 2) =
     Inr (lab_to_rgb linear_cm
       (interp_lab 1 (lab_values (viridis_three ! 0)) (lab_values (viridis_three ! 1))))"
    by simp
  have below: "color_lookup_sRGBColor linear_cm viridis_three (- 1) = Inr (sRGBColor 0 0 0)"
    using color_lookup_interpolates [OF shape, of "- 1" linear_cm] by simp
  have above: "color_lookup_sRGBColor linear_cm viridis_three 2 = Inr (sRGBColor 1 1 1)"
    using color_lookup_interpolates [OF shape, of 2 linear_cm] last by simp
  from shape upper tie below above show ?thesis by blast
qed

text \<open>
  C6 as stated, for every table with strictly increasing scalars, fails. On the table
  with the scalars -2 and -1 the query -1.5 lies between the first and the last scalar,
  yet the guard \<open>x < 0\<close> answers black, which is not the conversion of the interpolated
  Lab colour; and the query -0.5 lies above the last scalar and is answered black, not
  white. On a table of a single row there is no interval: the query at its scalar is
  answered white, which is not the conversion of the row's Lab colour.
\<close>

theorem color_lookup_unrestricted_counterexample:
  "sorted_wrt (<) (map scalar negative_ends) \<and>
   scalar (hd negative_ends) \<le> - (3 / 2) \<and> - (3 / 2) \<le> scalar (last negative_ends) \<and>
   color_lookup_sRGBColor linear_cm negative_ends (- (3 / 2)) = Inr (sRGBColor 0 0 0) \<and>
   lab_to_rgb linear_cm
     (interp_lab (1 / 2) (lab_values (negative_ends ! 0)) (lab_values (negative_ends ! 1))) \<noteq>
     sRGBColor 0 0 0 \<and>
   scalar (last negative_ends) < - (1 / 2) \<and>
   color_lookup_sRGBColor linear_cm negative_ends (- (1 / 2)) = Inr (sRGBColor 0 0 0) \<and>
   sorted_wrt (<) (map scalar [hd viridis_ends]) \<and>
   color_lookup_sRGBColor linear_cm [hd viridis_ends] (scalar (hd viridis_ends)) =
     Inr (sRGBColor 1 1 1) \<and>
   lab_to_rgb linear_cm (lab_values (hd viridis_ends)) \<noteq> sRGBColor 1 1 1"
  by (simp add: color_lookup_sRGBColor_def negative_ends_def viridis_ends_def linear_cm_def
      linear_rgb_to_lab_def linear_lab_to_rgb_def interp_lab_def)

text \<open>
  C10. When the scalars of the table are strictly increasing and the query is at least
  the first scalar, the lookup returns a colour (the scan is a total recursion over the
  rows and ends without a division by zero), and the interval at which the fraction is
  computed has its upper scalar strictly above its lower scalar.
\<close>

theorem color_lookup_no_division_by_zero:
  assumes "sorted_wrt (<) (map scalar data)" and "data \<noteq> []" and "scalar (hd data) \<le> x"
  shows "(\<exists>c. color_lookup_sRGBColor cm data x = Inr c) \<and>
         color_lookup_sRGBColor cm data x \<noteq> Inl DivisionByZero \<and>
         (\<forall>low high. selected_interval x data = Some (low, high) \<longrightarrow> scalar low < scalar high)"
proof -
  from lookup_loop_returns [OF assms(1), of cm x]
  have ret: "\<exists>c. color_lookup_sRGBColor cm data x = Inr c"
    by (auto simp: color_lookup_sRGBColor_def)
  then have "color_lookup_sRGBColor cm data x \<noteq> Inl DivisionByZero" by auto
  with ret selected_interval_increasing [OF assms(1)] show ?thesis by blast
qed

theorem color_lookup_no_division_by_zero_witness:
  "sorted_wrt (<) (map scalar viridis_ends) \<and> viridis_ends \<noteq> [] \<and>
   scalar (hd viridis_ends) \<le> 1 / 2 \<and>
   selected_interval (1 / 2) viridis_ends = Some (viridis_ends ! 0, viridis_ends ! 1) \<and>
   scalar (viridis_ends ! 0) < scalar (viridis_ends ! 1) \<and>
   color_lookup_sRGBColor linear_cm viridis_ends (1 / 2) \<noteq> Inl DivisionByZero"
proof -
  have h: "viridis_ends \<noteq> []" "scalar (hd viridis_ends) \<le> 1 / 2"
    "selected_interval (1 / 2) viridis_ends = Some (viridis_ends ! 0, viridis_ends ! 1)"
    by (simp_all add: viridis_ends_def)
  from color_lookup_no_division_by_zero [OF viridis_ends_shape(1) h(1,2), of linear_cm] h(3)
  have "scalar (viridis_ends ! 0) < scalar (viridis_ends ! 1)"
    "color_lookup_sRGBColor linear_cm viridis_ends (1 / 2) \<noteq> Inl DivisionByZero"
    by blast+
  with viridis_ends_shape(1) h show ?thesis by blast
qed


section \<open>Loading the input table\<close>

lemma load_RGBPoints_accepts:
  "length pts mod 4 = 0 \<Longrightarrow>
   \<exists>rows. load_RGBPoints pts = Inr rows \<and> length rows = length pts div 4 \<and>
     (\<forall>i<length rows. rows ! i =
        (pts ! (4 * i), sRGBColor (pts ! (4 * i + 1)) (pts ! (4 * i + 2)) (pts ! (4 * i + 3))))"
proof (induction pts rule: load_RGBPoints.induct)
  case 1
  then show ?case by simp
next
  case (2 s r g b rest)
  from "2.prems" have "length rest mod 4 = 0" by simp
  from "2.IH" [OF this] obtain rows where rows: "load_RGBPoints rest = Inr rows"
    "length rows = length rest div 4"
    "\<forall>i<length rows. rows ! i =
        (rest ! (4 * i), sRGBColor (rest ! (4 * i + 1)) (rest ! (4 * i + 2)) (rest ! (4 * i + 3)))"
    by blast
  have nth: "\<forall>i<Suc (length rows). ((s, sRGBColor r g b) # rows) ! i =
        ((s # r # g # b # rest) ! (4 * i),
         sRGBColor ((s # r # g # b # rest) ! (4 * i + 1)) ((s # r # g # b # rest) ! (4 * i + 2))
                   ((s # r # g # b # rest) ! (4 * i + 3)))"
  proof (intro allI impI)
    fix i assume "i < Suc (length rows)"
    then show "((s, sRGBColor r g b) # rows) ! i =
        ((s # r # g # b # rest) ! (4 * i),
         sRGBColor ((s # r # g # b # rest) ! (4 * i + 1)) ((s # r # g # b # rest) ! (4 * i + 2))
                   ((s # r # g # b # rest) ! (4 * i + 3)))"
    proof (cases i)
      case 0
      then show ?thesis by simp
    next
      case (Suc k)
      with \<open>i < Suc (length rows)\<close> have "k < length rows" by simp
      with rows(3) have "rows ! k =
        (rest ! (4 * k), sRGBColor (rest ! (4 * k + 1)) (rest ! (4 * k + 2)) (rest ! (4 * k + 3)))"
        by blast
      moreover have "4 * Suc k = Suc (Suc (Suc (Suc (4 * k))))" by simp
      ultimately show ?thesis using Suc by (simp add: numeral_eq_Suc)
    qed
  qed
  show ?case
    apply (rule exI [of _ "(s, sRGBColor r g b) # rows"])
    using rows(1,2) nth by simp
qed simp_all

text \<open>
  C4 (as amended). The load step checks neither the order nor the uniqueness of the
  scalars: every \<open>RGBPoints\<close> list whose length is a multiple of four is loaded, row \<open>i\<close>
  holding the scalar at position \<open>4i\<close>, the colour of the three numbers after it and that
  colour's Lab conversion, in the order given.
\<close>

theorem load_data_accepts_any_scalars:
  assumes "length pts mod 4 = 0"
  shows "\<exists>data. load_data cm pts = Inr data \<and> length data = length pts div 4 \<and>
           (\<forall>i<length data.
              scalar (data ! i) = pts ! (4 * i) \<and>
              rgb_values (data ! i) =
                sRGBColor (pts ! (4 * i + 1)) (pts ! (4 * i + 2)) (pts ! (4 * i + 3)) \<and>
              lab_values (data ! i) = rgb_to_lab cm (rgb_values (data ! i)))"
proof -
  from load_RGBPoints_accepts [OF assms] obtain rows where rows: "load_RGBPoints pts = Inr rows"
    "length rows = length pts div 4"
    "\<forall>i<length rows. rows ! i =
        (pts ! (4 * i), sRGBColor (pts ! (4 * i + 1)) (pts ! (4 * i + 2)) (pts ! (4 * i + 3)))"
    by blast
  let ?data = "map (\<lambda>(s, c). Data_row s c (rgb_to_lab cm c)) rows"
  have "load_data cm pts = Inr ?data" using rows(1) by (simp add: load_data_def)
  moreover have "length ?data = length pts div 4" using rows(2) by simp
  moreover have "\<forall>i<length ?data.
              scalar (?data ! i) = pts ! (4 * i) \<and>
              rgb_values (?data ! i) =
                sRGBColor (pts ! (4 * i + 1)) (pts ! (4 * i + 2)) (pts ! (4 * i + 3)) \<and>
              lab_values (?data ! i) = rgb_to_lab cm (rgb_values (?data ! i))"
    using rows(3) by simp
  ultimately show ?thesis by blast
qed

theorem load_data_accepts_any_scalars_witness:
  "length [1, 1, 1, 1, 0, 0, 0, 0 :: real] mod 4 = 0 \<and>
   (\<exists>data. load_data linear_cm [1, 1, 1, 1, 0, 0, 0, 0] = Inr data \<and> length data = 2 \<and>
      scalar (data ! 0) = 1 \<and> scalar (data ! 1) = 0)"
proof -
  have h: "length [1, 1, 1, 1, 0, 0, 0, 0 :: real] mod 4 = 0" by simp
  from load_data_accepts_any_scalars [OF h, of linear_cm]
  obtain data where d: "load_data linear_cm [1, 1, 1, 1, 0, 0, 0, 0] = Inr data"
    "length data = length [1, 1, 1, 1, 0, 0, 0, 0 :: real] div 4"
    "\<forall>i<length data. scalar (data ! i) = [1, 1, 1, 1, 0, 0, 0, 0] ! (4 * i)"
    by blast
  from d(2) have len: "length data = 2" by simp
  with d(3) have "scalar (data ! 0) = 1" "scalar (data ! 1) = 0" by simp_all
  with h d(1) len show ?thesis by blast
qed

text \<open>
  C4 as stated fails: the list with the scalars 1, 0, 0 (neither sorted nor free of
  duplicates) is loaded without an error, and a lookup on the loaded table runs (and
  answers white for the query 0.5).
\<close>

theorem load_unsorted_counterexample:
  "load_data linear_cm [1, 1, 1, 1, 0, 0, 0, 0, 0, 0, 0, 0] =
     Inr [Data_row 1 (sRGBColor 1 1 1) (LabColor 100 0 0),
          Data_row 0 (sRGBColor 0 0 0) (LabColor 0 0 0),
          Data_row 0 (sRGBColor 0 0 0) (LabColor 0 0 0)] \<and>
   color_lookup_sRGBColor linear_cm
     [Data_row 1 (sRGBColor 1 1 1) (LabColor 100 0 0),
      Data_row 0 (sRGBColor 0 0 0) (LabColor 0 0 0),
      Data_row 0 (sRGBColor 0 0 0) (LabColor 0 0 0)] (1 / 2) = Inr (sRGBColor 1 1 1)"
  by (simp add: load_data_def linear_cm_def linear_rgb_to_lab_def color_lookup_sRGBColor_def Let_def)

section \<open>No safe scale\<close>

lemma chroma_search_all_unsafe:
  "(\<forall>k. 1 \<le> k \<and> k \<le> n \<longrightarrow>
      \<not> safe_color cm (Color_Lab (LabColor l (high / 2 ^ k * a) (high / 2 ^ k * b)))) \<Longrightarrow>
   chroma_search cm l a b n 0 high = 0"
proof (induction n arbitrary: high)
  case 0
  then show ?case by simp
next
  case (Suc n)
  have first: "\<not> safe_color cm (Color_Lab (LabColor l (high / 2 * a) (high / 2 * b)))"
    using Suc.prems [rule_format, of 1] by simp
  have "\<forall>k. 1 \<le> k \<and> k \<le> n \<longrightarrow>
      \<not> safe_color cm (Color_Lab (LabColor l (high / 2 / 2 ^ k * a) (high / 2 / 2 ^ k * b)))"
  proof (intro allI impI)
    fix k assume "1 \<le> k \<and> k \<le> n"
    then have "1 \<le> Suc k \<and> Suc k \<le> Suc n" by simp
    from Suc.prems [rule_format, OF this]
    show "\<not> safe_color cm (Color_Lab (LabColor l (high / 2 / 2 ^ k * a) (high / 2 / 2 ^ k * b)))"
      by (simp add: field_simps)
  qed
  from Suc.IH [OF this] first show ?case by (simp add: Let_def)
qed

lemma final_scale_all_unsafe:
  assumes "\<forall>k. 1 \<le> k \<and> k \<le> 12 \<longrightarrow> \<not> safe_color cm (Color_Lab (scaled_lab cm hue s (1 / 2 ^ k)))"
  shows "final_scale cm hue s = 0"
  unfolding final_scale_def
  by (rule chroma_search_all_unsafe) (use assms in \<open>simp add: scaled_lab_def\<close>)

lemma all_unsafe_linear:
  assumes "1 \<le> k" "k \<le> 12"
  shows "\<not> safe_color linear_cm (Color_Lab (scaled_lab linear_cm 300 (9999 / 10000) (1 / 2 ^ k)))"
proof -
  have "(2::real) ^ k \<le> 2 ^ 12" using assms by (intro power_increasing) auto
  then have y: "1 / (2::real) ^ k \<ge> 1 / 4096"
    by (simp add: field_simps)
  define y :: real where "y = 1 / 2 ^ k"
  have y1: "y \<ge> 1 / 4096" using y by (simp add: y_def)
  have rgb: "convert_to_sRGB linear_cm (Color_Lab (scaled_lab linear_cm 300 (9999 / 10000) y)) =
      sRGBColor (9999 / 10000 + y) (9999 / 10000) (9999 / 10000 + y)"
    by (simp add: scaled_lab_def lab_original_linear_300 linear_cm_simps linear_lab_to_rgb_def)
  have "\<not> (9999 / 10000 + y \<le> 1 - 5 / 100 * (9999 / 10000 + y - 9999 / 10000))"
    using y1 by simp
  moreover have "max (9999 / 10000 + y) (max (9999 / 10000) (9999 / 10000 + y)) = 9999 / 10000 + y"
    "min (9999 / 10000 + y) (min (9999 / 10000) (9999 / 10000 + y)) = 9999 / 10000"
    using y1 by simp_all
  ultimately have "\<not> safe_color linear_cm (Color_Lab (scaled_lab linear_cm 300 (9999 / 10000) y))"
    unfolding safe_color_def rgb Let_def by simp
  then show ?thesis by (simp add: y_def)
qed

lemma overshoot_unsafe:
  assumes "0 < l"
  shows "\<not> safe_color overshoot_cm (Color_Lab (LabColor l a b))"
proof -
  define r g bl where "r = (l + a) / 100 + 1" and "g = l / 100 + 1" and "bl = (l - b) / 100 + 1"
  have conv: "convert_to_sRGB overshoot_cm (Color_Lab (LabColor l a b)) = sRGBColor r g bl"
    by (simp add: overshoot_cm_def overshoot_lab_to_rgb_def r_def g_def bl_def)
  have "min r (min g bl) \<le> max r (max g bl)" by simp
  then have "0 \<le> 5 / 100 * (max r (max g bl) - min r (min g bl))" by simp
  moreover have "1 < g" using assms by (simp add: g_def)
  ultimately have "\<not> g \<le> 1 - 5 / 100 * (max r (max g bl) - min r (min g bl))" by linarith
  then show ?thesis
    unfolding safe_color_def conv Let_def by simp
qed

text \<open>
  C3 (as amended). \<open>scale_hue\<close> has no failing path and never tests the scale 0. For a
  scalar strictly between 0 and 1, when none of the twelve midpoints the search visits
  (the scales \<open>2\<^sup>-\<^sup>k\<close> for \<open>k\<close> from 1 to 12) is safe, the search ends with scale 0 and
  \<open>scale_hue\<close> returns the conversion of the pure gray \<open>LabColor(100*scalar, 0, 0)\<close>.
\<close>

theorem scale_hue_gray_without_safe_scale:
  assumes "0 < s" and "s < 1"
    and "\<forall>k. 1 \<le> k \<and> k \<le> 12 \<longrightarrow> \<not> safe_color cm (Color_Lab (scaled_lab cm hue s (1 / 2 ^ k)))"
  shows "final_scale cm hue s = 0 \<and> scale_hue cm hue s = lab_to_rgb cm (LabColor (100 * s) 0 0)"
proof -
  have zero: "final_scale cm hue s = 0" using assms(3) by (rule final_scale_all_unsafe)
  with scale_hue_interior [OF assms(1,2), of cm hue]
  have "scale_hue cm hue s = lab_to_rgb cm (LabColor (100 * s) 0 0)"
    by (simp add: final_lab_def scaled_lab_def)
  with zero show ?thesis by simp
qed

theorem scale_hue_gray_without_safe_scale_witness:
  "(0::real) < 9999 / 10000 \<and> (9999 / 10000 :: real) < 1 \<and>
   \<not> safe_color linear_cm (Color_Lab (scaled_lab linear_cm 300 (9999 / 10000) (1 / 2 ^ 12))) \<and>
   final_scale linear_cm 300 (9999 / 10000) = 0 \<and>
   scale_hue linear_cm 300 (9999 / 10000) = sRGBColor (9999 / 10000) (9999 / 10000) (9999 / 10000)"
proof -
  have h: "(0::real) < 9999 / 10000" "(9999 / 10000 :: real) < 1" by simp_all
  have unsafe: "\<forall>k. 1 \<le> k \<and> k \<le> 12 \<longrightarrow>
      \<not> safe_color linear_cm (Color_Lab (scaled_lab linear_cm 300 (9999 / 10000) (1 / 2 ^ k)))"
    using all_unsafe_linear by blast
  have last: "\<not> safe_color linear_cm (Color_Lab (scaled_lab linear_cm 300 (9999 / 10000) (1 / 2 ^ 12)))"
    by (rule all_unsafe_linear) simp_all
  from scale_hue_gray_without_safe_scale [OF h unsafe]
  have "final_scale linear_cm 300 (9999 / 10000) = 0"
    "scale_hue linear_cm 300 (9999 / 10000) = sRGBColor (9999 / 10000) (9999 / 10000) (9999 / 10000)"
    by (simp_all add: linear_cm_simps linear_lab_to_rgb_def)
  with h last show ?thesis by blast
qed

text \<open>
  C3 as stated fails: under the overshooting instance not even the gray of lightness 50
  (scale 0) is safe, every midpoint fails, and \<open>scale_hue\<close> still returns a colour, the
  out-of-gamut conversion \<open>(1.5, 1.5, 1.5)\<close> of that gray, instead of failing.
\<close>

theorem scale_hue_no_abort_counterexample:
  "\<not> safe_color overshoot_cm (Color_Lab (LabColor 50 0 0)) \<and>
   final_scale overshoot_cm 300 (1 / 2) = 0 \<and>
   scale_hue overshoot_cm 300 (1 / 2) = sRGBColor (3 / 2) (3 / 2) (3 / 2)"
proof -
  have gray: "\<not> safe_color overshoot_cm (Color_Lab (LabColor 50 0 0))"
    by (rule overshoot_unsafe) simp
  have zero: "final_scale overshoot_cm 300 (1 / 2) = 0"
    by (rule final_scale_all_unsafe) (simp add: scaled_lab_def overshoot_unsafe)
  with scale_hue_interior [of "1 / 2" overshoot_cm 300]
  have "scale_hue overshoot_cm 300 (1 / 2) = sRGBColor (3 / 2) (3 / 2) (3 / 2)"
    by (simp add: final_lab_def scaled_lab_def overshoot_cm_def overshoot_lab_to_rgb_def)
  with gray zero show ?thesis by simp
qed

section \<open>Luminance along the hue sweep\<close>

lemma linspace_length [simp]: "length (linspace a b n) = n"
  by (simp add: linspace_def)

lemma linspace_nth:
  "i < n \<Longrightarrow> linspace a b n ! i = a + real i * ((b - a) / real (n - 1))"
  by (auto simp: linspace_def)

lemma build_nth:
  "i < length hue_array \<Longrightarrow>
   build_kindlmann_colors cm hue_array ! i =
     kindlmann_row_of cm (hue_array ! i, real i * (1 / real (length hue_array - 1)))"
  by (simp add: build_kindlmann_colors_def linspace_nth)

lemma build_scalar_nth:
  "i < length hue_array \<Longrightarrow>
   t_scalar (build_kindlmann_colors cm hue_array ! i) = real i / real (length hue_array - 1)"
  by (simp add: build_nth kindlmann_row_of_def)

lemma build_scalar_mono:
  assumes "i \<le> j" "j < length hue_array"
  shows "t_scalar (build_kindlmann_colors cm hue_array ! i) \<le>
         t_scalar (build_kindlmann_colors cm hue_array ! j)"
  using assms by (simp add: build_scalar_nth divide_right_mono)

lemma build_color_nth:
  "i < length hue_array \<Longrightarrow>
   t_sRGBColor (build_kindlmann_colors cm hue_array ! i) =
     scale_hue cm (t_hue (build_kindlmann_colors cm hue_array ! i))
                  (t_scalar (build_kindlmann_colors cm hue_array ! i))"
  by (simp add: build_nth kindlmann_row_of_def)

lemma final_lab_l: "lab_l (final_lab cm hue s) = 100 * s"
  by (simp add: final_lab_def scaled_lab_def)

text \<open>
  C7. In the table of \<open>build_kindlmann_colors\<close>, for rows \<open>i \<le> j\<close>: the scalars do not
  decrease; a row whose scalar lies strictly between 0 and 1 holds the conversion of a
  Lab colour whose \<open>L\<close> is exactly 100 times its scalar, so \<open>L\<close> does not decrease from row
  \<open>i\<close> to row \<open>j\<close> and stays strictly between 0 and 100; a row with scalar at most 0 is
  pure black and a row with scalar at least 1 is pure white; and a table of more than one
  row starts at scalar 0 and ends at scalar 1.
\<close>

theorem kindlmann_luminance_monotone:
  assumes "tbl = build_kindlmann_colors cm hue_array" and "i \<le> j" and "j < length hue_array"
  shows "t_scalar (tbl ! i) \<le> t_scalar (tbl ! j) \<and>
         (0 < t_scalar (tbl ! i) \<and> t_scalar (tbl ! i) < 1 \<longrightarrow>
            t_sRGBColor (tbl ! i) = lab_to_rgb cm (final_lab cm (t_hue (tbl ! i)) (t_scalar (tbl ! i))) \<and>
            lab_l (final_lab cm (t_hue (tbl ! i)) (t_scalar (tbl ! i))) = 100 * t_scalar (tbl ! i) \<and>
            0 < lab_l (final_lab cm (t_hue (tbl ! i)) (t_scalar (tbl ! i))) \<and>
            lab_l (final_lab cm (t_hue (tbl ! i)) (t_scalar (tbl ! i))) < 100) \<and>
         (0 < t_scalar (tbl ! i) \<and> t_scalar (tbl ! j) < 1 \<longrightarrow>
            lab_l (final_lab cm (t_hue (tbl ! i)) (t_scalar (tbl ! i))) \<le>
            lab_l (final_lab cm (t_hue (tbl ! j)) (t_scalar (tbl ! j)))) \<and>
         (t_scalar (tbl ! i) \<le> 0 \<longrightarrow> t_sRGBColor (tbl ! i) = sRGBColor 0 0 0) \<and>
         (1 \<le> t_scalar (tbl ! j) \<longrightarrow> t_sRGBColor (tbl ! j) = sRGBColor 1 1 1) \<and>
         (1 < length hue_array \<longrightarrow>
            t_scalar (tbl ! 0) = 0 \<and> t_scalar (tbl ! (length hue_array - 1)) = 1)"
proof -
  from assms(2,3) have i: "i < length hue_array" by simp
  have mono: "t_scalar (tbl ! i) \<le> t_scalar (tbl ! j)"
    unfolding assms(1) using assms(2,3) by (rule build_scalar_mono)
  have col_i: "t_sRGBColor (tbl ! i) = scale_hue cm (t_hue (tbl ! i)) (t_scalar (tbl ! i))"
    unfolding assms(1) using i by (rule build_color_nth)
  have col_j: "t_sRGBColor (tbl ! j) = scale_hue cm (t_hue (tbl ! j)) (t_scalar (tbl ! j))"
    unfolding assms(1) using assms(3) by (rule build_color_nth)
  have interior: "0 < t_scalar (tbl ! i) \<and> t_scalar (tbl ! i) < 1 \<longrightarrow>
            t_sRGBColor (tbl ! i) = lab_to_rgb cm (final_lab cm (t_hue (tbl ! i)) (t_scalar (tbl ! i))) \<and>
            lab_l (final_lab cm (t_hue (tbl ! i)) (t_scalar (tbl ! i))) = 100 * t_scalar (tbl ! i) \<and>
            0 < lab_l (final_lab cm (t_hue (tbl ! i)) (t_scalar (tbl ! i))) \<and>
            lab_l (final_lab cm (t_hue (tbl ! i)) (t_scalar (tbl ! i))) < 100"
    using col_i by (simp add: scale_hue_interior final_lab_l)
  have lmono: "0 < t_scalar (tbl ! i) \<and> t_scalar (tbl ! j) < 1 \<longrightarrow>
            lab_l (final_lab cm (t_hue (tbl ! i)) (t_scalar (tbl ! i))) \<le>
            lab_l (final_lab cm (t_hue (tbl ! j)) (t_scalar (tbl ! j)))"
    using mono by (simp add: final_lab_l)
  have black: "t_scalar (tbl ! i) \<le> 0 \<longrightarrow> t_sRGBColor (tbl ! i) = sRGBColor 0 0 0"
    using col_i by (simp add: scale_hue_def)
  have white: "1 \<le> t_scalar (tbl ! j) \<longrightarrow> t_sRGBColor (tbl ! j) = sRGBColor 1 1 1"
    using col_j by (auto simp: scale_hue_def)
  have ends: "1 < length hue_array \<longrightarrow>
      t_scalar (tbl ! 0) = 0 \<and> t_scalar (tbl ! (length hue_array - 1)) = 1"
  proof
    assume long: "1 < length hue_array"
    then have "0 < length hue_array" "length hue_array - 1 < length hue_array" by auto
    from build_scalar_nth [OF this(1), of cm] build_scalar_nth [OF this(2), of cm] long
    show "t_scalar (tbl ! 0) = 0 \<and> t_scalar (tbl ! (length hue_array - 1)) = 1"
      unfolding assms(1) by simp
  qed
  from mono interior lmono black white ends show ?thesis by blast
qed

theorem kindlmann_luminance_monotone_witness:
  "(1::nat) \<le> 2 \<and> (2::nat) < length [300, 200, 100, 0 :: real] \<and>
   t_scalar (build_kindlmann_colors linear_cm [300, 200, 100, 0] ! 0) = 0 \<and>
   t_sRGBColor (build_kindlmann_colors linear_cm [300, 200, 100, 0] ! 0) = sRGBColor 0 0 0 \<and>
   t_scalar (build_kindlmann_colors linear_cm [300, 200, 100, 0] ! 1) = 1 / 3 \<and>
   t_sRGBColor (build_kindlmann_colors linear_cm [300, 200, 100, 0] ! 1) =
     lab_to_rgb linear_cm (final_lab linear_cm 200 (1 / 3)) \<and>
   lab_l (final_lab linear_cm 200 (1 / 3)) = 100 * (1 / 3) \<and>
   t_scalar (build_kindlmann_colors linear_cm [300, 200, 100, 0] ! 2) = 2 / 3 \<and>
   lab_l (final_lab linear_cm 200 (1 / 3)) \<le> lab_l (final_lab linear_cm 100 (2 / 3)) \<and>
   t_scalar (build_kindlmann_colors linear_cm [300, 200, 100, 0] ! 3) = 1 \<and>
   t_sRGBColor (build_kindlmann_colors linear_cm [300, 200, 100, 0] ! 3) = sRGBColor 1 1 1"
proof -
  let ?tbl = "build_kindlmann_colors linear_cm [300, 200, 100, 0]"
  have h: "(1::nat) \<le> 2" "(2::nat) < length [300, 200, 100, 0 :: real]" "(0::nat) \<le> 3"
    "(3::nat) < length [300, 200, 100, 0 :: real]"
    by simp_all
  have row: "t_scalar (?tbl ! 0) = 0" "t_scalar (?tbl ! 1) = 1 / 3" "t_hue (?tbl ! 1) = 200"
    "t_scalar (?tbl ! 2) = 2 / 3" "t_hue (?tbl ! 2) = 100" "t_scalar (?tbl ! 3) = 1"
    by (simp_all add: build_nth kindlmann_row_of_def)
  have inside: "(0::real) < 1 / 3 \<and> (1 / 3 :: real) < 1" "(0::real) < 1 / 3 \<and> (2 / 3 :: real) < 1"
    "(1::real) \<le> 1" "(0::real) \<le> 0"
    by simp_all
  note middle = kindlmann_luminance_monotone [OF refl h(1,2), of linear_cm, unfolded row]
  note outer = kindlmann_luminance_monotone [OF refl h(3,4), of linear_cm, unfolded row]
  from middle inside have a:
    "t_sRGBColor (?tbl ! 1) = lab_to_rgb linear_cm (final_lab linear_cm 200 (1 / 3))"
    "lab_l (final_lab linear_cm 200 (1 / 3)) = 100 * (1 / 3)"
    "lab_l (final_lab linear_cm 200 (1 / 3)) \<le> lab_l (final_lab linear_cm 100 (2 / 3))"
    by blast+
  from outer inside have b: "t_sRGBColor (?tbl ! 0) = sRGBColor 0 0 0"
    "t_sRGBColor (?tbl ! 3) = sRGBColor 1 1 1"
    by blast+
  from h(1,2) row(1,2,4,6) a b show ?thesis by blast
qed

section \<open>Sampling at two resolutions\<close>

lemma every_other_length: "length (every_other xs) = (length xs + 1) div 2"
  by (induction xs rule: every_other.induct) auto

lemma every_other_nth: "2 * i < length xs \<Longrightarrow> every_other xs ! i = xs ! (2 * i)"
proof (induction xs arbitrary: i rule: every_other.induct)
  case (1 x y rest)
  then show ?case by (cases i) auto
qed simp_all

lemma every_other_map: "every_other (map f xs) = map f (every_other xs)"
  by (induction xs rule: every_other.induct) auto

lemma every_other_zip:
  "length xs = length ys \<Longrightarrow> every_other (zip xs ys) = zip (every_other xs) (every_other ys)"
proof (induction xs arbitrary: ys rule: induct_list012)
  case 1
  then show ?case by simp
next
  case (2 x)
  then show ?case by (cases ys) auto
next
  case (3 x y rest)
  then obtain a b ys' where "ys = a # b # ys'"
    by (cases ys; cases "tl ys") auto
  with 3 show ?case by simp
qed

lemma linspace_every_other:
  assumes "0 < R"
  shows "every_other (linspace a b (2 * R - 1)) = linspace a b R"
proof (rule nth_equalityI)
  show len: "length (every_other (linspace a b (2 * R - 1))) = length (linspace a b R)"
    using assms by (simp add: every_other_length)
  fix i assume "i < length (every_other (linspace a b (2 * R - 1)))"
  with len have i: "i < R" by simp
  then have i2: "2 * i < 2 * R - 1" by simp
  have "every_other (linspace a b (2 * R - 1)) ! i = linspace a b (2 * R - 1) ! (2 * i)"
    using i2 by (simp add: every_other_nth)
  also have "\<dots> = a + real (2 * i) * ((b - a) / real (2 * R - 1 - 1))"
    using i2 by (rule linspace_nth)
  also have "real (2 * R - 1 - 1) = 2 * real (R - 1)"
    using assms by simp
  also have "a + real (2 * i) * ((b - a) / (2 * real (R - 1))) = a + real i * ((b - a) / real (R - 1))"
    by simp
  also have "\<dots> = linspace a b R ! i"
    using i by (simp add: linspace_nth)
  finally show "every_other (linspace a b (2 * R - 1)) ! i = linspace a b R ! i" .
qed

text \<open>
  C8 (as amended). For every resolution \<open>R \<ge> 1\<close>, sampling the same rule on \<open>2R - 1\<close>
  uniformly spaced scalars and taking every other row reproduces the resolution-\<open>R\<close>
  table exactly, in both modes: the hue-sweep table over \<open>linspace(start_hue, end_hue, _)\<close>
  and the table of interpolated lookups.
\<close>

theorem resample_every_other:
  assumes "0 < R"
  shows "every_other (build_kindlmann_colors cm (linspace start_hue end_hue (2 * R - 1))) =
           build_kindlmann_colors cm (linspace start_hue end_hue R) \<and>
         every_other (control_points cm data (2 * R - 1)) = control_points cm data R"
proof -
  have "every_other (build_kindlmann_colors cm (linspace start_hue end_hue (2 * R - 1))) =
           build_kindlmann_colors cm (linspace start_hue end_hue R)"
    using linspace_every_other [OF assms]
    by (simp add: build_kindlmann_colors_def every_other_map every_other_zip)
  moreover have "every_other (control_points cm data (2 * R - 1)) = control_points cm data R"
    using linspace_every_other [OF assms]
    by (simp add: control_points_def every_other_map)
  ultimately show ?thesis by simp
qed

theorem resample_every_other_witness:
  "(0::nat) < 8 \<and>
   every_other (build_kindlmann_colors linear_cm (linspace 300 0 15)) =
     build_kindlmann_colors linear_cm (linspace 300 0 8) \<and>
   every_other (control_points linear_cm viridis_ends 15) = control_points linear_cm viridis_ends 8"
  using resample_every_other [of 8 linear_cm 300 0 viridis_ends]
  by simp

text \<open>
  C8 as stated fails: with 16 points instead of 15, row 7 of the subsampled table sits at
  scalar 14/15, where the resolution-8 table has scalar 1. In the interpolated mode the
  upscaled colours there are (241, 216, 40) against (253, 231, 37); in the hue sweep the
  resolution-8 table ends in pure white, the subsampled one does not reach scalar 1.
\<close>

theorem resample_double_counterexample:
  "every_other (control_points linear_cm viridis_ends (2 * 8)) ! 7 = (14 / 15, Inr (241, 216, 40)) \<and>
   control_points linear_cm viridis_ends 8 ! 7 = (1, Inr (253, 231, 37)) \<and>
   t_scalar (every_other (build_kindlmann_colors linear_cm (linspace 300 0 (2 * 8))) ! 7) = 14 / 15 \<and>
   t_scalar (build_kindlmann_colors linear_cm (linspace 300 0 8) ! 7) = 1 \<and>
   t_sRGBColor (build_kindlmann_colors linear_cm (linspace 300 0 8) ! 7) = sRGBColor 1 1 1"
proof -
  have "every_other (control_points linear_cm viridis_ends (2 * 8)) ! 7 =
        control_points linear_cm viridis_ends 16 ! 14"
    by (subst every_other_nth) (simp_all add: control_points_def)
  moreover have "control_points linear_cm viridis_ends 16 ! 14 = (14 / 15, Inr (241, 216, 40))"
    by (simp add: control_points_def linspace_def color_lookup_upscaled_def color_lookup_sRGBColor_def
      viridis_ends_def linear_cm_def linear_rgb_to_lab_def linear_lab_to_rgb_def Let_def
      get_upscaled_value_tuple_def upscale_def)
  moreover have "control_points linear_cm viridis_ends 8 ! 7 = (1, Inr (253, 231, 37))"
    by (simp add: control_points_def linspace_def color_lookup_upscaled_def color_lookup_sRGBColor_def
      viridis_ends_def linear_cm_def linear_rgb_to_lab_def linear_lab_to_rgb_def Let_def
      get_upscaled_value_tuple_def upscale_def)
  moreover have "every_other (build_kindlmann_colors linear_cm (linspace 300 0 (2 * 8))) ! 7 =
        build_kindlmann_colors linear_cm (linspace 300 0 16) ! 14"
    by (subst every_other_nth) (simp_all add: build_kindlmann_colors_def)
  moreover have "t_scalar (build_kindlmann_colors linear_cm (linspace 300 0 16) ! 14) = 14 / 15"
    by (simp add: build_scalar_nth)
  moreover have "t_scalar (build_kindlmann_colors linear_cm (linspace 300 0 8) ! 7) = 1"
    by (simp add: build_scalar_nth)
  moreover have "t_sRGBColor (build_kindlmann_colors linear_cm (linspace 300 0 8) ! 7) = sRGBColor 1 1 1"
    by (simp add: build_color_nth build_scalar_nth scale_hue_def)
  ultimately show ?thesis by simp
qed


end
